theory Spec2Isabelle
  imports Main "HOL-Library.Char_ord" "HOL-Library.List_Lexorder"
begin

section \<open>Python values used by the program\<close>

text \<open>
  The program is \<^verbatim>\<open>dockerfile-generator.py\<close>. Its locally computed part is
  \<^verbatim>\<open>read_file_content\<close>, \<^verbatim>\<open>analyze_project_dependencies\<close> and
  \<^verbatim>\<open>summarize_project_structure\<close>; the rest sends the summary to a remote service.

  A Python \<^verbatim>\<open>str\<close> is modelled as a \<^typ>\<open>string\<close>: a list of characters, each a code
  point below 256. The order on characters is the order of their code points and the
  order on strings is the lexicographic one, which is how Python compares \<^verbatim>\<open>str\<close>.
  Exceptions are values of \<open>error\<close>; a computation that may raise returns a sum with
  \<open>Inl\<close> for the exception. \<open>OtherError\<close> stands for an exception of any other class,
  by the name of the class.
\<close>

datatype error =
    IndexError | KeyError | AttributeError | ValueError
  | PermissionError | RecursionError | JSONDecodeError | ParseError
  | OtherError string

subsection \<open>Methods of str\<close>

text \<open>\<^verbatim>\<open>s.startswith(prefix)\<close>.\<close>

definition startswith :: "string \<Rightarrow> string \<Rightarrow> bool" where
  "startswith s prefix = (take (length prefix) s = prefix)"

text \<open>\<^verbatim>\<open>sep.join(xs)\<close>.\<close>

fun join :: "string \<Rightarrow> string list \<Rightarrow> string" where
  "join sep [] = []"
| "join sep [x] = x"
| "join sep (x # y # ys) = x @ sep @ join sep (y # ys)"

text \<open>
  \<^verbatim>\<open>s.splitlines()\<close>: the line boundaries below code point 256 are LF, VT, FF, CR (CR LF
  counts once), FS, GS, RS and NEL. The boundaries are dropped, and a text that ends
  in a boundary has no empty last line.
\<close>

definition is_linebreak :: "char \<Rightarrow> bool" where
  "is_linebreak c =
     (c = CHR 0x0A \<or> c = CHR 0x0B \<or> c = CHR 0x0C \<or> c = CHR 0x0D \<or>
      c = CHR 0x1C \<or> c = CHR 0x1D \<or> c = CHR 0x1E \<or> c = CHR 0x85)"

fun splitlines_from :: "string \<Rightarrow> string \<Rightarrow> string list" where
  "splitlines_from cur [] = (if cur = [] then [] else [cur])"
| "splitlines_from cur (c # cs) =
     (if is_linebreak c then
        cur # splitlines_from []
          (if c = CHR 0x0D \<and> take 1 cs = [CHR 0x0A] then tl cs else cs)
      else splitlines_from (cur @ [c]) cs)"

definition splitlines :: "string \<Rightarrow> string list" where
  "splitlines s = splitlines_from [] s"

text \<open>
  \<^verbatim>\<open>s.split()\<close> with no argument: the pieces between runs of whitespace, none of them
  empty. The whitespace below code point 256 is TAB, LF, VT, FF, CR, FS, GS, RS, US,
  space, NEL and the no-break space.
\<close>

definition is_space :: "char \<Rightarrow> bool" where
  "is_space c =
     (c = CHR 0x09 \<or> c = CHR 0x0A \<or> c = CHR 0x0B \<or> c = CHR 0x0C \<or> c = CHR 0x0D \<or>
      c = CHR 0x1C \<or> c = CHR 0x1D \<or> c = CHR 0x1E \<or> c = CHR 0x1F \<or> c = CHR 0x20 \<or>
      c = CHR 0x85 \<or> c = CHR 0xA0)"

fun split_from :: "string \<Rightarrow> string \<Rightarrow> string list" where
  "split_from cur [] = (if cur = [] then [] else [cur])"
| "split_from cur (c # cs) =
     (if is_space c then
        (if cur = [] then split_from [] cs else cur # split_from [] cs)
      else split_from (cur @ [c]) cs)"

definition str_split :: "string \<Rightarrow> string list" where
  "str_split s = split_from [] s"

text \<open>
  \<^verbatim>\<open>s.strip(chars)\<close>: every leading and every trailing character that is one of
  \<open>chars\<close> is removed, however many there are.
\<close>

definition strip :: "string \<Rightarrow> string \<Rightarrow> string" where
  "strip chars s =
     rev (dropWhile (\<lambda>c. List.member chars c) (rev (dropWhile (\<lambda>c. List.member chars c) s)))"

text \<open>\<^verbatim>\<open>xs[i]\<close> for a list and an index that is not negative.\<close>

definition getitem :: "'a list \<Rightarrow> nat \<Rightarrow> error + 'a" where
  "getitem xs i = (if i < length xs then Inr (xs ! i) else Inl IndexError)"

subsection \<open>Paths\<close>

text \<open>
  A \<^verbatim>\<open>pathlib.Path\<close> on a POSIX system. A path is kept as the text it was made
  from (\<open>base\<close>) and the names joined to it since (\<open>steps\<close>), which is how the
  traversal makes its paths; the root and the parts are computed from them as pathlib
  computes them (CPython 3.8 to 3.12): the text is cut at \<^verbatim>\<open>/\<close>, empty pieces and
  \<^verbatim>\<open>.\<close> are dropped, and the root is \<^verbatim>\<open>//\<close> for exactly two leading slashes, \<^verbatim>\<open>/\<close> for
  any other number.
\<close>

record path =
  base :: string
  steps :: "string list"

definition Path :: "string \<Rightarrow> path" where
  "Path directory = \<lparr>base = directory, steps = []\<rparr>"

fun split_sep :: "string \<Rightarrow> string \<Rightarrow> string list" where
  "split_sep cur [] = [cur]"
| "split_sep cur (c # cs) =
     (if c = CHR ''/'' then cur # split_sep [] cs else split_sep (cur @ [c]) cs)"

definition posix_root :: "string \<Rightarrow> string" where
  "posix_root s =
     (if startswith s ''//'' \<and> \<not> startswith s ''///'' then ''//''
      else if startswith s ''/'' then ''/''
      else '''')"

definition posix_parts :: "string \<Rightarrow> string list" where
  "posix_parts s = filter (\<lambda>x. x \<noteq> [] \<and> x \<noteq> ''.'') (split_sep [] s)"

definition root :: "path \<Rightarrow> string" where
  "root p = posix_root (base p)"

definition parts :: "path \<Rightarrow> string list" where
  "parts p = posix_parts (base p) @ steps p"

text \<open>\<^verbatim>\<open>str(p)\<close>.\<close>

definition str :: "path \<Rightarrow> string" where
  "str p = (if root p = [] \<and> parts p = [] then ''.'' else root p @ join ''/'' (parts p))"

text \<open>\<^verbatim>\<open>p.name\<close>: the last part, or the empty string when there is none.\<close>

definition name :: "path \<Rightarrow> string" where
  "name p = (if parts p = [] then [] else last (parts p))"

text \<open>
  \<^verbatim>\<open>p.suffix\<close>: the name from its last dot on, when that dot is neither the first
  nor the last character of the name; the empty string otherwise.
\<close>

definition suffix :: "path \<Rightarrow> string" where
  "suffix p =
     (let ext = rev (takeWhile (\<lambda>c. c \<noteq> CHR ''.'') (rev (name p)))
      in if ext \<noteq> [] \<and> length ext + 1 < length (name p) then CHR ''.'' # ext else [])"

text \<open>\<^verbatim>\<open>p.parent\<close>: the path without its last part; a path with no part is its own parent.\<close>

definition parent :: "path \<Rightarrow> path" where
  "parent p =
     (if steps p = [] then
        \<lparr>base = posix_root (base p) @ join ''/'' (butlast (posix_parts (base p))), steps = []\<rparr>
      else p\<lparr>steps := butlast (steps p)\<rparr>)"

text \<open>
  \<^verbatim>\<open>p.relative_to(other)\<close>: the parts of \<open>p\<close> after those of \<open>other\<close>, as a relative
  path; \<^verbatim>\<open>ValueError\<close> when \<open>other\<close> is not a prefix of \<open>p\<close>.
\<close>

definition relative_to :: "path \<Rightarrow> string \<Rightarrow> error + path" where
  "relative_to p other =
     (if root p = posix_root other \<and>
         take (length (posix_parts other)) (parts p) = posix_parts other
      then Inr \<lparr>base = [], steps = drop (length (posix_parts other)) (parts p)\<rparr>
      else Inl ValueError)"

subsection \<open>Values of the json and xml.etree.ElementTree modules\<close>

text \<open>
  What \<^verbatim>\<open>json.loads\<close> returns. An object is a \<^verbatim>\<open>dict\<close>, kept as the list of its
  items in iteration order (the keys of a \<^verbatim>\<open>dict\<close> are distinct); a number is kept
  as its literal, which the program never reads.
\<close>

datatype json =
    JNull
  | JBool bool
  | JNumber string
  | JString string
  | JArray "json list"
  | JObject "(string \<times> json) list"

text \<open>
  \<^verbatim>\<open>data.get(key, {})\<close> and \<^verbatim>\<open>d.keys()\<close>: only a \<^verbatim>\<open>dict\<close> has these attributes, any
  other value raises \<^verbatim>\<open>AttributeError\<close>.
\<close>

definition json_get :: "json \<Rightarrow> string \<Rightarrow> error + json" where
  "json_get data key =
     (case data of
        JObject items \<Rightarrow> (case map_of items key of None \<Rightarrow> Inr (JObject []) | Some v \<Rightarrow> Inr v)
      | _ \<Rightarrow> Inl AttributeError)"

definition json_keys :: "json \<Rightarrow> error + string list" where
  "json_keys data = (case data of JObject items \<Rightarrow> Inr (map fst items) | _ \<Rightarrow> Inl AttributeError)"

text \<open>
  An \<^verbatim>\<open>Element\<close>: its tag, its attributes and its child elements in document order
  (text and tail are left out, the program does not read them). The tag is the tag
  of ElementTree: the local name for an element in no namespace,
  \<^verbatim>\<open>{uri}\<close> followed by the local name for an element in the namespace \<^verbatim>\<open>uri\<close>. So in
  a document whose root declares a default \<^verbatim>\<open>xmlns\<close>, no element has the tag
  \<^verbatim>\<open>PackageReference\<close>.
\<close>

datatype element = Element (tag: string) (attrib: "(string \<times> string) list") (children: "element list")

text \<open>\<^verbatim>\<open>e.iter()\<close>: the element and all elements below it, in document order.\<close>

fun iter :: "element \<Rightarrow> element list" where
  "iter (Element t a cs) = Element t a cs # concat (map iter cs)"

text \<open>
  \<^verbatim>\<open>ElementTree(e).findall(".//" + t)\<close>: the elements whose tag is exactly \<open>t\<close>, at any
  depth below \<open>e\<close>, in document order. The search starts below \<open>e\<close>: \<open>e\<close> itself is
  never found.
\<close>

definition findall_descendants :: "element \<Rightarrow> string \<Rightarrow> element list" where
  "findall_descendants e t = filter (\<lambda>x. tag x = t) (concat (map iter (children e)))"

text \<open>
  The two parsers are parameters of the model. \<^verbatim>\<open>json.loads\<close> returns a value (\<open>Inr\<close>)
  or raises: \<^verbatim>\<open>JSONDecodeError\<close> on a text it rejects, and other exceptions on some
  texts (\<^verbatim>\<open>RecursionError\<close> on deep nesting, \<^verbatim>\<open>ValueError\<close> on a very long integer). It
  also accepts texts that are not JSON, such as \<^verbatim>\<open>NaN\<close>. \<^verbatim>\<open>ET.fromstring\<close> returns the
  root element or raises, \<^verbatim>\<open>ParseError\<close> on a text it rejects.
\<close>

record library =
  json_loads :: "string \<Rightarrow> error + json"
  fromstring :: "string \<Rightarrow> error + element"

subsection \<open>The file system\<close>

text \<open>
  What the program sees of the file system. \<open>tree_at fs d\<close> is what \<^verbatim>\<open>stat\<close> finds at
  the directory argument \<open>d\<close>, links followed: an exception (\<^verbatim>\<open>PermissionError\<close> when
  \<open>d\<close> lies below a directory that cannot be searched), nothing (\<open>Inr None\<close>), or a tree
  of entries.

  \<open>Dir r x entries\<close> is a directory with its entries in the order \<^verbatim>\<open>os.scandir\<close> gives
  them (names within one listing are distinct). \<open>r\<close> says that it can be listed;
  listing it otherwise raises \<^verbatim>\<open>PermissionError\<close>. \<open>x\<close> says that it can be searched;
  otherwise \<^verbatim>\<open>stat\<close> of anything below it, and listing a directory below it, raise
  \<^verbatim>\<open>PermissionError\<close>. \<open>File\<close> is a regular file, \<open>Link t\<close> a symbolic link whose target
  is \<open>t\<close>, \<open>Other\<close> any other entry (a dangling link, a socket, a pipe).

  \<open>read_text fs p\<close> is what \<^verbatim>\<open>open(p, 'r', encoding='utf-8')\<close> followed by \<^verbatim>\<open>read()\<close> does:
  it returns the text (\<open>Inr\<close>) or raises an exception whose message is the \<open>Inl\<close> value.
\<close>

datatype node = File | Dir bool bool "(string \<times> node) list" | Link node | Other

record filesystem =
  tree_at :: "string \<Rightarrow> error + node option"
  read_text :: "path \<Rightarrow> string + string"

text \<open>
  \<^verbatim>\<open>stat\<close> of a path below the directory argument follows links: every directory on
  the way must be searchable; a name that is missing, or a step through an entry that
  is no directory, gives nothing.
\<close>

fun resolve :: "node \<Rightarrow> node" where
  "resolve (Link t) = resolve t"
| "resolve File = File"
| "resolve (Dir r x entries) = Dir r x entries"
| "resolve Other = Other"

fun lookup :: "node \<Rightarrow> string list \<Rightarrow> error + node option" where
  "lookup n [] = Inr (Some (resolve n))"
| "lookup (Dir r x entries) (s # ss) =
     (if x then (case map_of entries s of None \<Rightarrow> Inr None | Some child \<Rightarrow> lookup child ss)
      else Inl PermissionError)"
| "lookup (Link t) (s # ss) = lookup t (s # ss)"
| "lookup File (s # ss) = Inr None"
| "lookup Other (s # ss) = Inr None"

definition stat :: "filesystem \<Rightarrow> path \<Rightarrow> error + node option" where
  "stat fs p =
     (case tree_at fs (base p) of
        Inl e \<Rightarrow> Inl e
      | Inr None \<Rightarrow> Inr None
      | Inr (Some n) \<Rightarrow> lookup n (steps p))"

text \<open>
  \<^verbatim>\<open>p.is_file()\<close> and \<^verbatim>\<open>p.is_dir()\<close>: pathlib answers \<^verbatim>\<open>False\<close> when \<^verbatim>\<open>stat\<close> finds nothing
  and raises again every other exception of \<^verbatim>\<open>stat\<close>.
\<close>

definition is_file :: "filesystem \<Rightarrow> path \<Rightarrow> error + bool" where
  "is_file fs p =
     (case stat fs p of
        Inl e \<Rightarrow> Inl e
      | Inr (Some File) \<Rightarrow> Inr True
      | Inr _ \<Rightarrow> Inr False)"

definition is_dir :: "filesystem \<Rightarrow> path \<Rightarrow> error + bool" where
  "is_dir fs p =
     (case stat fs p of
        Inl e \<Rightarrow> Inl e
      | Inr (Some (Dir r x entries)) \<Rightarrow> Inr True
      | Inr _ \<Rightarrow> Inr False)"

text \<open>
  \<^verbatim>\<open>pathlib.Path(directory).rglob('*')\<close>, as the selectors of CPython 3.8 to 3.12 run. It
  first asks \<^verbatim>\<open>is_dir\<close> of the directory, which may raise, and yields nothing when the
  answer is \<^verbatim>\<open>False\<close>. Otherwise, for the directory and then for each directory below
  it (a directory before the directories it holds), it yields all the entries of the
  listing. It does not descend into an entry that is a link, whatever its target; the
  directory argument itself may be a link to a directory, whose entries are listed. A
  \<^verbatim>\<open>PermissionError\<close> of a listing is swallowed and that directory gives no entry; this
  is the case of a directory that cannot be listed and of every directory below one
  that cannot be searched. \<open>select_from\<close> gives the entries by the names that lead to
  them from the directory.
\<close>

fun select_from :: "string list \<Rightarrow> node \<Rightarrow> string list list" where
  "select_from pre (Dir r x entries) =
     (if r then
        map (\<lambda>e. pre @ [fst e]) entries @
        (if x then concat (map (\<lambda>e. select_from (pre @ [fst e]) (snd e)) entries) else [])
      else [])"
| "select_from pre File = []"
| "select_from pre (Link t) = []"
| "select_from pre Other = []"

definition rglob :: "filesystem \<Rightarrow> string \<Rightarrow> error + path list" where
  "rglob fs directory =
     (case is_dir fs (Path directory) of
        Inl e \<Rightarrow> Inl e
      | Inr False \<Rightarrow> Inr []
      | Inr True \<Rightarrow>
          (case tree_at fs directory of
             Inr (Some n) \<Rightarrow>
               Inr (map (\<lambda>s. \<lparr>base = directory, steps = s\<rparr>) (select_from [] (resolve n)))
           | _ \<Rightarrow> Inr []))"

section \<open>The program\<close>

text \<open>
  A function that prints returns the lines it printed together with its result:
  \<open>(printed, result)\<close>, where the result of a function that may raise is a sum. Each
  printed line is kept with the stream it goes to: standard output, where \<^verbatim>\<open>print\<close>
  writes and where the program prints the generated files, or standard error, the
  stream of diagnostics, to which the program never writes.
\<close>

datatype stream = Stdout | Stderr

type_synonym printed = "(stream \<times> string) list"

type_synonym 'a outcome = "printed \<times> (error + 'a)"

subsection \<open>read_file_content\<close>

text \<open>
  Lines 20 to 29. Every exception of opening or reading is caught: a line is printed,
  by \<^verbatim>\<open>print\<close> with no \<^verbatim>\<open>file\<close> argument and so on standard output, and the result is
  \<^verbatim>\<open>None\<close>.
\<close>

definition read_file_content :: "filesystem \<Rightarrow> path \<Rightarrow> printed \<times> string option" where
  "read_file_content fs file_path =
     (case read_text fs file_path of
        Inr content \<Rightarrow> ([], Some content)
      | Inl e \<Rightarrow> ([(Stdout, ''Error reading file '' @ str file_path @ '': '' @ e)], None))"

subsection \<open>analyze_project_dependencies\<close>

text \<open>
  Lines 39 to 44, the body under \<^verbatim>\<open>if content:\<close> of the \<^verbatim>\<open>package.json\<close> branch. Only
  \<^verbatim>\<open>JSONDecodeError\<close> is caught; any other exception of \<^verbatim>\<open>json.loads\<close>, and the
  \<^verbatim>\<open>AttributeError\<close> of \<^verbatim>\<open>get\<close> or \<^verbatim>\<open>keys\<close> on a value that is no \<^verbatim>\<open>dict\<close>, leave the
  function.
\<close>

definition analyze_package_json :: "library \<Rightarrow> string \<Rightarrow> error + string" where
  "analyze_package_json lib content =
     (case json_loads lib content of
        Inl e \<Rightarrow> (if e = JSONDecodeError then Inr ''Error analyzing package.json.'' else Inl e)
      | Inr data \<Rightarrow>
          (case json_get data ''dependencies'' of
             Inl e \<Rightarrow> Inl e
           | Inr deps \<Rightarrow>
               (case json_keys deps of
                  Inl e \<Rightarrow> Inl e
                | Inr dependencies \<Rightarrow>
                    Inr (''Node.js dependencies: '' @ join '', '' dependencies @ ''.''))))"

text \<open>
  Lines 49 to 53, the \<^verbatim>\<open>Gemfile\<close> branch. The loop over the lines appends to
  \<^verbatim>\<open>dependencies\<close>; \<^verbatim>\<open>line.split()[1]\<close> raises \<^verbatim>\<open>IndexError\<close> on a line with fewer than two
  pieces, and nothing catches it.
\<close>

definition gem_name :: "string \<Rightarrow> error + string" where
  "gem_name line =
     (case getitem (str_split line) 1 of
        Inl e \<Rightarrow> Inl e
      | Inr piece \<Rightarrow> Inr (strip [CHR 0x27] (strip [CHR 0x22] piece)))"

fun gemfile_loop :: "string list \<Rightarrow> string list \<Rightarrow> error + string list" where
  "gemfile_loop [] dependencies = Inr dependencies"
| "gemfile_loop (line # lines) dependencies =
     (if startswith line ''gem'' then
        (case gem_name line of
           Inl e \<Rightarrow> Inl e
         | Inr gem \<Rightarrow> gemfile_loop lines (dependencies @ [gem]))
      else gemfile_loop lines dependencies)"

definition analyze_gemfile :: "string \<Rightarrow> error + string" where
  "analyze_gemfile content =
     (case gemfile_loop (splitlines content) [] of
        Inl e \<Rightarrow> Inl e
      | Inr dependencies \<Rightarrow>
          Inr (''Ruby dependencies (Gemfile): '' @ join '', '' dependencies @ ''.''))"

text \<open>Lines 59 to 61, the branch of \<^verbatim>\<open>requirements.txt\<close> and \<^verbatim>\<open>Pipfile\<close>.\<close>

definition analyze_python :: "string \<Rightarrow> string \<Rightarrow> error + string" where
  "analyze_python file_name content =
     (let dependencies = filter (\<lambda>line. line \<noteq> [] \<and> \<not> startswith line ''#'') (splitlines content);
          python_deps_desc =
            (if file_name = ''Pipfile'' then ''Python dependencies (Pipfile)''
             else ''Python dependencies (requirements.txt)'')
      in Inr (python_deps_desc @ '': '' @ join '', '' dependencies @ ''.''))"

text \<open>
  Lines 65 to 70, the \<^verbatim>\<open>.csproj\<close> branch. \<^verbatim>\<open>element.attrib['Include']\<close> raises \<^verbatim>\<open>KeyError\<close>
  on an element without that attribute; only \<^verbatim>\<open>ParseError\<close> is caught.
\<close>

fun include_values :: "element list \<Rightarrow> error + string list" where
  "include_values [] = Inr []"
| "include_values (e # es) =
     (case map_of (attrib e) ''Include'' of
        None \<Rightarrow> Inl KeyError
      | Some v \<Rightarrow> (case include_values es of Inl err \<Rightarrow> Inl err | Inr vs \<Rightarrow> Inr (v # vs)))"

definition analyze_csproj :: "library \<Rightarrow> string \<Rightarrow> error + string" where
  "analyze_csproj lib content =
     (case fromstring lib content of
        Inl e \<Rightarrow> (if e = ParseError then Inr ''Error analyzing .csproj.'' else Inl e)
      | Inr tree \<Rightarrow>
          (case include_values (findall_descendants tree ''PackageReference'') of
             Inl e \<Rightarrow> Inl e
           | Inr packages \<Rightarrow> Inr (''C# dependencies: '' @ join '', '' packages @ ''.'')))"

text \<open>
  Each branch reads the file and runs its body under \<^verbatim>\<open>if content:\<close>, which is false
  for \<^verbatim>\<open>None\<close> and for the empty text; the function then falls through to the final
  \<^verbatim>\<open>return ""\<close>.
\<close>

definition if_content :: "filesystem \<Rightarrow> path \<Rightarrow> (string \<Rightarrow> error + string) \<Rightarrow> string outcome" where
  "if_content fs file_path body =
     (case read_file_content fs file_path of
        (printed, None) \<Rightarrow> (printed, Inr [])
      | (printed, Some content) \<Rightarrow> (printed, if content \<noteq> [] then body content else Inr []))"

text \<open>Lines 31 to 71: the dispatch on the name of the file.\<close>

definition analyze_project_dependencies :: "library \<Rightarrow> filesystem \<Rightarrow> path \<Rightarrow> string outcome" where
  "analyze_project_dependencies lib fs file_path =
     (if name file_path = ''package.json'' then
        if_content fs file_path (analyze_package_json lib)
      else if name file_path = ''Gemfile'' then
        if_content fs file_path analyze_gemfile
      else if name file_path = ''requirements.txt'' \<or> name file_path = ''Pipfile'' then
        if_content fs file_path (analyze_python (name file_path))
      else if suffix file_path = ''.csproj'' then
        if_content fs file_path (analyze_csproj lib)
      else ([], Inr []))"

subsection \<open>summarize_project_structure\<close>

text \<open>
  Lines 81 to 88, the loop over the paths that \<^verbatim>\<open>rglob\<close> yields, with the two
  accumulators \<^verbatim>\<open>dependency_summary\<close> and \<^verbatim>\<open>directory_structure\<close>. An exception of
  \<^verbatim>\<open>is_file\<close> or of the analysis ends the loop and the function.
\<close>

fun traverse ::
  "library \<Rightarrow> filesystem \<Rightarrow> string \<Rightarrow> path list \<Rightarrow> string list \<times> string set \<Rightarrow>
   (string list \<times> string set) outcome" where
  "traverse lib fs directory [] acc = ([], Inr acc)"
| "traverse lib fs directory (p # ps) (dependency_summary, directory_structure) =
     (case is_file fs p of
        Inl e \<Rightarrow> ([], Inl e)
      | Inr True \<Rightarrow>
          (case analyze_project_dependencies lib fs p of
             (printed, Inl e) \<Rightarrow> (printed, Inl e)
           | (printed, Inr analysis_result) \<Rightarrow>
               (case traverse lib fs directory ps
                       (if analysis_result \<noteq> [] then dependency_summary @ [analysis_result]
                        else dependency_summary,
                        directory_structure) of
                  (printed', r) \<Rightarrow> (printed @ printed', r)))
      | Inr False \<Rightarrow>
          (case relative_to p directory of
             Inl e \<Rightarrow> ([], Inl e)
           | Inr relative_path \<Rightarrow>
               traverse lib fs directory ps
                 (dependency_summary, insert (str (parent relative_path)) directory_structure)))"

text \<open>Lines 91 to 93: the text of the summary.\<close>

definition project_summary :: "string list \<Rightarrow> string set \<Rightarrow> string" where
  "project_summary dependency_summary directory_structure =
     ''Detected directories:'' @ [CHR 0x0A] @
     join [CHR 0x0A] (sorted_list_of_set directory_structure) @
     [CHR 0x0A, CHR 0x0A] @ ''Dependencies info: '' @ join '' '' dependency_summary"

text \<open>
  Lines 73 to 95. An exception of \<^verbatim>\<open>rglob\<close> is raised when the loop of line 81 asks
  for the first path, before anything else is done.
\<close>

definition summarize_project_structure :: "library \<Rightarrow> filesystem \<Rightarrow> string \<Rightarrow> string outcome" where
  "summarize_project_structure lib fs directory =
     (case rglob fs directory of
        Inl e \<Rightarrow> ([], Inl e)
      | Inr paths \<Rightarrow>
          (case traverse lib fs directory paths ([], {}) of
             (printed, Inl e) \<Rightarrow> (printed, Inl e)
           | (printed, Inr (dependency_summary, directory_structure)) \<Rightarrow>
               (printed, Inr (project_summary dependency_summary directory_structure))))"

section \<open>Example inputs\<close>

text \<open>
  Concrete inputs for the closed theorems below. \<open>example_library\<close> holds the outcomes
  of \<^verbatim>\<open>json.loads\<close> and \<^verbatim>\<open>ET.fromstring\<close> on the texts that the examples read: each
  listed text with the value the parser returns for it or the exception it raises
  (\<^verbatim>\<open>RecursionError\<close> for 1100 opening brackets), and the exception of a rejected text
  for the others; of these the examples read only the empty text, \<^verbatim>\<open>not json\<close> and
  \<^verbatim>\<open><Project>\<close>, which the parsers reject. No theorem that is stated for every
  library depends on it.
\<close>

definition example_json_loads :: "string \<Rightarrow> error + json" where
  \<open>example_json_loads s =
     (if s = ''{"dependencies": {"a": "1.0", "b": "2.0"}}'' then
        Inr (JObject [(''dependencies'', JObject [(''a'', JString ''1.0''), (''b'', JString ''2.0'')])])
      else if s = ''{"name": "app"}'' then Inr (JObject [(''name'', JString ''app'')])
      else if s = ''{"dependencies": null}'' then Inr (JObject [(''dependencies'', JNull)])
      else if s = ''[]'' then Inr (JArray [])
      else if s = replicate 1100 (CHR ''['') then Inl RecursionError
      else Inl JSONDecodeError)\<close>

definition example_fromstring :: "string \<Rightarrow> error + element" where
  \<open>example_fromstring s =
     (if s = ''<Project><ItemGroup><PackageReference Include="Newtonsoft.Json"/></ItemGroup><PackageReference Include="Serilog"/></Project>'' then
        Inr (Element ''Project'' []
               [Element ''ItemGroup'' [] [Element ''PackageReference'' [(''Include'', ''Newtonsoft.Json'')] []],
                Element ''PackageReference'' [(''Include'', ''Serilog'')] []])
      else if s = ''<PackageReference/>'' then Inr (Element ''PackageReference'' [] [])
      else if s = ''<Project><ItemGroup><PackageReference/></ItemGroup></Project>'' then
        Inr (Element ''Project'' [] [Element ''ItemGroup'' [] [Element ''PackageReference'' [] []]])
      else if s = ''<Project xmlns="urn:msbuild"><ItemGroup><PackageReference Include="Serilog"/><PackageReference/></ItemGroup></Project>'' then
        Inr (Element ''{urn:msbuild}Project'' []
               [Element ''{urn:msbuild}ItemGroup'' []
                  [Element ''{urn:msbuild}PackageReference'' [(''Include'', ''Serilog'')] [],
                   Element ''{urn:msbuild}PackageReference'' [] []]])
      else Inl ParseError)\<close>

definition example_library :: library where
  "example_library = \<lparr>json_loads = example_json_loads, fromstring = example_fromstring\<rparr>"

text \<open>
  \<open>single_file n r\<close> is a file system with one directory, \<^verbatim>\<open>proj\<close>, that can be listed
  and searched and holds one regular file named \<open>n\<close> whose reading does \<open>r\<close>;
  \<open>in_proj n\<close> is the path of that file as the traversal of \<^verbatim>\<open>proj\<close> yields it.
\<close>

definition single_file :: "string \<Rightarrow> string + string \<Rightarrow> filesystem" where
  "single_file file_name outcome =
     \<lparr>tree_at = (\<lambda>d. if d = ''proj'' then Inr (Some (Dir True True [(file_name, File)])) else Inr None),
      read_text = (\<lambda>p. if base p = ''proj'' \<and> steps p = [file_name] then outcome
                        else Inl ''[Errno 2] No such file or directory'')\<rparr>"

definition in_proj :: "string \<Rightarrow> path" where
  "in_proj file_name = \<lparr>base = ''proj'', steps = [file_name]\<rparr>"

text \<open>
  The manifests of the examples of the specification, a project file that declares a
  default \<^verbatim>\<open>xmlns\<close>, and a project holding the manifests.
\<close>

definition example_gemfile :: string where
  \<open>example_gemfile = join [CHR 0x0A] [''gem "rails"'', ''# comment'', ''gem '' @ [CHR 0x27] @ ''pg'' @ [CHR 0x27]]\<close>

definition example_requirements :: string where
  "example_requirements = join [CHR 0x0A] [''flask'', [], ''# note'', ''requests'']"

definition example_csproj :: string where
  \<open>example_csproj = ''<Project><ItemGroup><PackageReference Include="Newtonsoft.Json"/></ItemGroup><PackageReference Include="Serilog"/></Project>''\<close>

definition example_csproj_xmlns :: string where
  \<open>example_csproj_xmlns = ''<Project xmlns="urn:msbuild"><ItemGroup><PackageReference Include="Serilog"/><PackageReference/></ItemGroup></Project>''\<close>

definition example_project :: filesystem where
  "example_project =
     \<lparr>tree_at = (\<lambda>d. if d = ''proj'' then
          Inr (Some (Dir True True
                 [(''package.json'', File),
                  (''src'', Dir True True
                     [(''app.csproj'', File), (''lib'', Dir True True [(''util'', Dir True True [])])]),
                  (''Gemfile'', File),
                  (''docs'', Dir True True [(''requirements.txt'', File)]),
                  (''README.md'', File),
                  (''current'', Link (Dir True True [(''notes.txt'', File)]))]))
        else Inr None),
      read_text = (\<lambda>p.
        if steps p = [''package.json''] then Inr ''not json''
        else if steps p = [''src'', ''app.csproj''] then Inr example_csproj
        else if steps p = [''Gemfile''] then Inr example_gemfile
        else if steps p = [''docs'', ''requirements.txt''] then Inr example_requirements
        else if steps p = [''README.md''] then Inr ''# app''
        else Inl ''[Errno 21] Is a directory'')\<rparr>"

text \<open>A project whose directory \<^verbatim>\<open>x\<close> holds nothing but a dangling link.\<close>

definition dangling_project :: filesystem where
  "dangling_project =
     \<lparr>tree_at = (\<lambda>d. if d = ''proj'' then
          Inr (Some (Dir True True [(''x'', Dir True True [(''dangling'', Other)])]))
        else Inr None),
      read_text = (\<lambda>p. Inl ''[Errno 2] No such file or directory'')\<rparr>"

text \<open>
  File systems for the permissions: \<^verbatim>\<open>locked\<close> exists and can be neither listed nor
  searched (mode 000); \<^verbatim>\<open>closed/below\<close> lies below a directory that cannot be
  searched; \<^verbatim>\<open>listed\<close> can be listed but not searched (mode 444) and holds one
  regular file; \<^verbatim>\<open>outer\<close> is an ordinary directory whose directory \<^verbatim>\<open>sub\<close> can be
  listed but not searched.
\<close>

definition permission_examples :: filesystem where
  "permission_examples =
     \<lparr>tree_at = (\<lambda>d.
        if d = ''locked'' then Inr (Some (Dir False False [(''app.py'', File)]))
        else if d = ''closed/below'' then Inl PermissionError
        else if d = ''listed'' then Inr (Some (Dir True False [(''app.py'', File)]))
        else if d = ''outer'' then
          Inr (Some (Dir True True [(''app.py'', File), (''sub'', Dir True False [(''g.txt'', File)])]))
        else Inr None),
      read_text = (\<lambda>p. Inr ''print(1)'')\<rparr>"

section \<open>Paths of the traversal\<close>

lemma posix_parts_Nil: "posix_parts [] = []"
  by (simp add: posix_parts_def)

lemma posix_root_Nil: "posix_root [] = []"
  by (simp add: posix_root_def startswith_def)

lemma relative_to_base: "relative_to \<lparr>base = d, steps = s\<rparr> d = Inr \<lparr>base = [], steps = s\<rparr>"
  by (simp add: relative_to_def root_def parts_def)

lemma str_parent_relative:
  "str (parent \<lparr>base = [], steps = s\<rparr>) = (if butlast s = [] then ''.'' else join ''/'' (butlast s))"
  by (simp add: str_def parent_def root_def parts_def posix_parts_Nil posix_root_Nil)

lemma rglob_base: "rglob fs d = Inr ps \<Longrightarrow> p \<in> set ps \<Longrightarrow> base p = d"
  by (auto simp: rglob_def split: sum.splits bool.splits option.splits)

lemma relative_to_rglob:
  assumes "base p = d"
  shows "relative_to p d = Inr \<lparr>base = [], steps = steps p\<rparr>"
proof -
  have "p = \<lparr>base = d, steps = steps p\<rparr>" using assms by simp
  then show ?thesis using relative_to_base [of d "steps p"] by simp
qed

lemma is_file_cases:
  obtains (denied) e where "is_file fs q = Inl e"
        | (regular) "is_file fs q = Inr True"
        | (not_regular) "is_file fs q = Inr False"
  by (cases "is_file fs q") auto

lemma is_dir_not_file: "is_dir fs p = Inr True \<Longrightarrow> is_file fs p = Inr False"
  by (auto simp: is_dir_def is_file_def split: sum.splits option.splits node.splits)

lemma traverse_stat_raises:
  "is_file fs q = Inl e \<Longrightarrow> traverse lib fs d (q # qs) (deps, dirs) = ([], Inl e)"
  by simp

lemma traverse_file_Inl:
  "is_file fs q = Inr True \<Longrightarrow> analyze_project_dependencies lib fs q = (out, Inl e) \<Longrightarrow>
   traverse lib fs d (q # qs) (deps, dirs) = (out, Inl e)"
  by simp

lemma traverse_file_Inr:
  "is_file fs q = Inr True \<Longrightarrow> analyze_project_dependencies lib fs q = (out, Inr x) \<Longrightarrow>
   traverse lib fs d (q # qs) (deps, dirs) =
     (out @ fst (traverse lib fs d qs (if x \<noteq> [] then deps @ [x] else deps, dirs)),
      snd (traverse lib fs d qs (if x \<noteq> [] then deps @ [x] else deps, dirs)))"
  by (cases "x = []") (simp_all split: prod.splits)

lemma traverse_not_file:
  "is_file fs q = Inr False \<Longrightarrow> base q = d \<Longrightarrow>
   traverse lib fs d (q # qs) (deps, dirs) =
     traverse lib fs d qs (deps, insert (str (parent \<lparr>base = [], steps = steps q\<rparr>)) dirs)"
  by (simp add: relative_to_rglob)

lemma traverse_Nil: "traverse lib fs d [] acc = ([], Inr acc)"
  by simp

declare traverse.simps [simp del]

lemma analyze_cases:
  obtains (raises) out e where "analyze_project_dependencies lib fs q = (out, Inl e)"
        | (returns) out x where "analyze_project_dependencies lib fs q = (out, Inr x)"
  by (cases "analyze_project_dependencies lib fs q"; cases "snd (analyze_project_dependencies lib fs q)") auto

lemma traverse_Inr_files:
  "snd (traverse lib fs d ps acc) = Inr res \<Longrightarrow> \<forall>p\<in>set ps. base p = d \<Longrightarrow> p \<in> set ps \<Longrightarrow>
   \<not> isl (is_file fs p) \<and>
   (is_file fs p = Inr True \<longrightarrow> \<not> isl (snd (analyze_project_dependencies lib fs p)))"
proof (induction ps arbitrary: acc)
  case Nil
  then show ?case by simp
next
  case (Cons q qs)
  obtain deps dirs where acc: "acc = (deps, dirs)" by (cases acc)
  have bq: "base q = d" and bqs: "\<forall>p\<in>set qs. base p = d" using Cons.prems(2) by simp_all
  show ?case
  proof (cases fs q rule: is_file_cases)
    case (denied e)
    with Cons.prems(1) acc show ?thesis by (simp add: traverse_stat_raises)
  next
    case regular
    show ?thesis
    proof (cases lib fs q rule: analyze_cases)
      case (raises out e)
      with Cons.prems(1) regular acc show ?thesis by (simp add: traverse_file_Inl)
    next
      case (returns out x)
      from Cons.prems(1) acc
      have t: "snd (traverse lib fs d qs (if x \<noteq> [] then deps @ [x] else deps, dirs)) = Inr res"
        by (simp add: traverse_file_Inr [OF regular returns])
      show ?thesis
      proof (cases "p = q")
        case True
        then show ?thesis using returns regular by simp
      next
        case False
        with Cons.prems(3) have "p \<in> set qs" by simp
        from Cons.IH [OF t bqs this] show ?thesis .
      qed
    qed
  next
    case not_regular
    from Cons.prems(1) acc
    have t: "snd (traverse lib fs d qs (deps, insert (str (parent \<lparr>base = [], steps = steps q\<rparr>)) dirs)) = Inr res"
      by (simp add: traverse_not_file [OF not_regular bq])
    show ?thesis
    proof (cases "p = q")
      case True
      then show ?thesis using not_regular by simp
    next
      case False
      with Cons.prems(3) have "p \<in> set qs" by simp
      from Cons.IH [OF t bqs this] show ?thesis .
    qed
  qed
qed

lemma traverse_ok:
  assumes "\<forall>p\<in>set ps. base p = d"
      and "\<forall>p\<in>set ps. \<not> isl (is_file fs p)"
      and "\<forall>p\<in>set ps. is_file fs p = Inr True \<longrightarrow>
             \<not> isl (snd (analyze_project_dependencies lib fs p))"
  shows "snd (traverse lib fs d ps (deps, dirs)) =
         Inr (deps @ filter (\<lambda>r. r \<noteq> [])
                       (map (\<lambda>p. projr (snd (analyze_project_dependencies lib fs p)))
                            (filter (\<lambda>p. is_file fs p = Inr True) ps)),
              dirs \<union> (\<lambda>p. str (parent \<lparr>base = [], steps = steps p\<rparr>)) `
                       {p \<in> set ps. is_file fs p = Inr False})"
  using assms
proof (induction ps arbitrary: deps dirs)
  case Nil
  then show ?case by (simp add: traverse_Nil)
next
  case (Cons q qs)
  have bq: "base q = d" and bqs: "\<forall>p\<in>set qs. base p = d" using Cons.prems(1) by simp_all
  have sqs: "\<forall>p\<in>set qs. \<not> isl (is_file fs p)" using Cons.prems(2) by simp
  have aqs: "\<forall>p\<in>set qs. is_file fs p = Inr True \<longrightarrow>
               \<not> isl (snd (analyze_project_dependencies lib fs p))"
    using Cons.prems(3) by simp
  show ?case
  proof (cases fs q rule: is_file_cases)
    case (denied e)
    with Cons.prems(2) show ?thesis by simp
  next
    case regular
    with Cons.prems(3) have ok: "\<not> isl (snd (analyze_project_dependencies lib fs q))" by simp
    have set_eq: "{p \<in> set (q # qs). is_file fs p = Inr False} = {p \<in> set qs. is_file fs p = Inr False}"
      using regular by auto
    show ?thesis
    proof (cases lib fs q rule: analyze_cases)
      case (raises out e)
      with ok show ?thesis by simp
    next
      case (returns out x)
      show ?thesis
        unfolding traverse_file_Inr [OF regular returns] set_eq
        using regular returns Cons.IH [OF bqs sqs aqs, of "if x \<noteq> [] then deps @ [x] else deps" dirs]
        by simp
    qed
  next
    case not_regular
    have set_eq: "{p \<in> set (q # qs). is_file fs p = Inr False} =
                  insert q {p \<in> set qs. is_file fs p = Inr False}"
      using not_regular by auto
    show ?thesis
      unfolding traverse_not_file [OF not_regular bq] set_eq
      using not_regular
        Cons.IH [OF bqs sqs aqs, of deps "insert (str (parent \<lparr>base = [], steps = steps q\<rparr>)) dirs"]
      by simp
  qed
qed

section \<open>Facts about the branches and the whole summary\<close>

lemma if_content_read:
  "read_text fs p = Inr content \<Longrightarrow>
   if_content fs p body = ([], if content \<noteq> [] then body content else Inr [])"
  by (simp add: if_content_def read_file_content_def)


lemma suffix_csproj:
  assumes "name p = stem @ ''.csproj''" and "stem \<noteq> []"
  shows "suffix p = ''.csproj''"
proof -
  have "rev (name p) = ''jorpsc'' @ CHR ''.'' # rev stem" using assms(1) by simp
  then have "takeWhile (\<lambda>c. c \<noteq> CHR ''.'') (rev (name p)) = ''jorpsc''"
    by simp
  then show ?thesis using assms by (simp add: suffix_def)
qed

lemma csproj_not_other_manifest:
  assumes "name p = stem @ ''.csproj''"
  shows "name p \<noteq> ''package.json''" "name p \<noteq> ''Gemfile''"
        "name p \<noteq> ''requirements.txt''" "name p \<noteq> ''Pipfile''"
proof -
  have "last (name p) = CHR ''j''" using assms by simp
  then show "name p \<noteq> ''package.json''" "name p \<noteq> ''Gemfile''"
        "name p \<noteq> ''requirements.txt''" "name p \<noteq> ''Pipfile''"
    by auto
qed

lemma analyze_csproj_branch:
  assumes "name p = stem @ ''.csproj''" and "stem \<noteq> []"
  shows "analyze_project_dependencies lib fs p = if_content fs p (analyze_csproj lib)"
  using csproj_not_other_manifest [OF assms(1)] suffix_csproj [OF assms]
  by (simp add: analyze_project_dependencies_def)

lemma include_values_ok:
  "\<forall>e\<in>set es. map_of (attrib e) ''Include'' \<noteq> None \<Longrightarrow>
   include_values es = Inr (map (\<lambda>e. the (map_of (attrib e) ''Include'')) es)"
  by (induction es) auto

lemma include_values_KeyError:
  "e \<in> set es \<Longrightarrow> map_of (attrib e) ''Include'' = None \<Longrightarrow> include_values es = Inl KeyError"
proof (induction es)
  case Nil
  then show ?case by simp
next
  case (Cons x xs)
  show ?case
  proof (cases "map_of (attrib x) ''Include''")
    case None
    then show ?thesis by simp
  next
    case (Some v)
    with Cons.prems have "e \<in> set xs" by auto
    with Cons.IH Cons.prems(2) have "include_values xs = Inl KeyError" by simp
    with Some show ?thesis by simp
  qed
qed

lemma gemfile_loop_ok:
  "\<forall>line\<in>set ls. startswith line ''gem'' \<longrightarrow> 2 \<le> length (str_split line) \<Longrightarrow>
   gemfile_loop ls acc =
     Inr (acc @ map (\<lambda>line. strip [CHR 0x27] (strip [CHR 0x22] (str_split line ! 1)))
                    (filter (\<lambda>line. startswith line ''gem'') ls))"
proof (induction ls arbitrary: acc)
  case Nil
  then show ?case by simp
next
  case (Cons l ls)
  then show ?case by (auto simp: gem_name_def getitem_def)
qed

lemma gemfile_loop_IndexError:
  "line \<in> set ls \<Longrightarrow> startswith line ''gem'' \<Longrightarrow> length (str_split line) < 2 \<Longrightarrow>
   gemfile_loop ls acc = Inl IndexError"
proof (induction ls arbitrary: acc)
  case Nil
  then show ?case by simp
next
  case (Cons l ls)
  show ?case
  proof (cases "startswith l ''gem''")
    case False
    with Cons show ?thesis by auto
  next
    case True
    show ?thesis
    proof (cases "length (str_split l) < 2")
      case True
      with \<open>startswith l ''gem''\<close> show ?thesis by (simp add: gem_name_def getitem_def)
    next
      case False
      with Cons.prems have "line \<in> set ls" by auto
      from Cons.IH [OF this Cons.prems(2,3)] True False show ?thesis
        by (simp add: gem_name_def getitem_def)
    qed
  qed
qed



lemma rglob_raises:
  "tree_at fs d = Inl e \<Longrightarrow> rglob fs d = Inl e"
  by (simp add: rglob_def is_dir_def stat_def Path_def)


lemma summarize_ok:
  assumes "rglob fs d = Inr ps"
      and "\<forall>p\<in>set ps. \<not> isl (is_file fs p)"
      and "\<forall>p\<in>set ps. is_file fs p = Inr True \<longrightarrow>
             \<not> isl (snd (analyze_project_dependencies lib fs p))"
  shows "snd (summarize_project_structure lib fs d) =
         Inr (project_summary
                (filter (\<lambda>r. r \<noteq> [])
                   (map (\<lambda>p. projr (snd (analyze_project_dependencies lib fs p)))
                        (filter (\<lambda>p. is_file fs p = Inr True) ps)))
                ((\<lambda>p. str (parent \<lparr>base = [], steps = steps p\<rparr>)) `
                   {p \<in> set ps. is_file fs p = Inr False}))"
proof -
  have bases: "\<forall>p\<in>set ps. base p = d" using rglob_base [OF assms(1)] by blast
  from traverse_ok [OF bases assms(2,3), of "[]" "{}"] assms(1) show ?thesis
    by (cases "traverse lib fs d ps ([], {})")
       (simp add: summarize_project_structure_def)
qed

lemma summarize_Inr_D:
  assumes "snd (summarize_project_structure lib fs d) = Inr text"
  obtains ps where "rglob fs d = Inr ps"
    "\<forall>p\<in>set ps. \<not> isl (is_file fs p)"
    "\<forall>p\<in>set ps. is_file fs p = Inr True \<longrightarrow>
       \<not> isl (snd (analyze_project_dependencies lib fs p))"
proof (cases "rglob fs d")
  case (Inl e)
  with assms show ?thesis by (simp add: summarize_project_structure_def)
next
  case (Inr ps)
  have bases: "\<forall>p\<in>set ps. base p = d" using rglob_base [OF Inr] by blast
  obtain out r where t: "traverse lib fs d ps ([], {}) = (out, r)"
    by (cases "traverse lib fs d ps ([], {})")
  from assms Inr t obtain res where "r = Inr res"
    by (cases r) (auto simp: summarize_project_structure_def)
  with t have "snd (traverse lib fs d ps ([], {})) = Inr res" by simp
  from traverse_Inr_files [OF this bases] Inr that show ?thesis by blast
qed

section \<open>The directory block of the summary\<close>

text \<open>
  Claim C1 says that the set of the directory block is built from the directory
  entries: the parent of each. Counterexample: in a project whose directory \<^verbatim>\<open>x\<close>
  holds a dangling link, the traversal yields \<^verbatim>\<open>x\<close> and \<^verbatim>\<open>x/dangling\<close>; the only
  directory is \<^verbatim>\<open>x\<close>, whose parent is \<^verbatim>\<open>.\<close>, but the link is no regular file, the
  \<^verbatim>\<open>else\<close> of line 86 takes it, and the block holds \<^verbatim>\<open>x\<close> too.
\<close>

theorem dangling_link_adds_its_parent:
  "rglob dangling_project ''proj'' =
     Inr [\<lparr>base = ''proj'', steps = [''x'']\<rparr>, \<lparr>base = ''proj'', steps = [''x'', ''dangling'']\<rparr>] \<and>
   is_dir dangling_project \<lparr>base = ''proj'', steps = [''x'']\<rparr> = Inr True \<and>
   is_dir dangling_project \<lparr>base = ''proj'', steps = [''x'', ''dangling'']\<rparr> = Inr False \<and>
   is_file dangling_project \<lparr>base = ''proj'', steps = [''x'', ''dangling'']\<rparr> = Inr False \<and>
   summarize_project_structure example_library dangling_project ''proj'' =
     ([], Inr ''Detected directories:\<newline>.\<newline>x\<newline>\<newline>Dependencies info: '')"
  by code_simp

text \<open>
  Claim C1 as amended. When the traversal raises nothing, \<^verbatim>\<open>is_file\<close> answers for every
  path of the traversal and the analysis of no regular file raises, the summary is
  returned and its block after \<^verbatim>\<open>Detected directories:\<close> is a list of strings joined
  with newlines that is sorted in the order of Python strings and holds no string
  twice; its members are exactly the collected parents: for every path of the
  traversal that is not a regular file (a directory or any other entry), the text of
  the parent of its path relative to the scanned directory. In particular the parent
  of every directory of the traversal is a member (the parent, not the directory).
\<close>

theorem directory_block_sorted_distinct_parents:
  assumes "rglob fs directory = Inr paths"
      and "\<forall>p\<in>set paths. \<not> isl (is_file fs p)"
      and "\<forall>p\<in>set paths. is_file fs p = Inr True \<longrightarrow>
             \<not> isl (snd (analyze_project_dependencies lib fs p))"
  shows "\<exists>ds deps.
           snd (summarize_project_structure lib fs directory) =
             Inr (''Detected directories:'' @ [CHR 0x0A] @ join [CHR 0x0A] ds @
                  [CHR 0x0A, CHR 0x0A] @ ''Dependencies info: '' @ join '' '' deps) \<and>
           sorted ds \<and> distinct ds \<and>
           set ds = {str (parent q) |p q.
                       p \<in> set paths \<and> is_file fs p = Inr False \<and>
                       relative_to p directory = Inr q} \<and>
           (\<forall>p\<in>set paths. is_dir fs p = Inr True \<longrightarrow>
              (\<exists>q. relative_to p directory = Inr q \<and> str (parent q) \<in> set ds))"
proof -
  let ?deps = "filter (\<lambda>r. r \<noteq> [])
                 (map (\<lambda>p. projr (snd (analyze_project_dependencies lib fs p)))
                      (filter (\<lambda>p. is_file fs p = Inr True) paths))"
  define dirs where
    "dirs = (\<lambda>p. str (parent \<lparr>base = [], steps = steps p\<rparr>)) ` {p \<in> set paths. is_file fs p = Inr False}"
  have s: "snd (summarize_project_structure lib fs directory) = Inr (project_summary ?deps dirs)"
    unfolding dirs_def by (rule summarize_ok [OF assms])
  have fin: "finite dirs" unfolding dirs_def by simp
  have rel: "\<And>p. p \<in> set paths \<Longrightarrow> relative_to p directory = Inr \<lparr>base = [], steps = steps p\<rparr>"
    using rglob_base [OF assms(1)] relative_to_rglob by blast
  have coll: "dirs = {str (parent q) |p q.
                       p \<in> set paths \<and> is_file fs p = Inr False \<and> relative_to p directory = Inr q}"
    unfolding dirs_def using rel by (auto simp: image_iff)
  let ?ds = "sorted_list_of_set dirs"
  have "snd (summarize_project_structure lib fs directory) =
             Inr (''Detected directories:'' @ [CHR 0x0A] @ join [CHR 0x0A] ?ds @
                  [CHR 0x0A, CHR 0x0A] @ ''Dependencies info: '' @ join '' '' ?deps)"
    using s by (simp add: project_summary_def)
  moreover have "sorted ?ds" and "distinct ?ds" by simp_all
  moreover have m: "set ?ds = dirs" using fin by simp
  moreover have "\<forall>p\<in>set paths. is_dir fs p = Inr True \<longrightarrow>
              (\<exists>q. relative_to p directory = Inr q \<and> str (parent q) \<in> set ?ds)"
  proof (intro ballI impI)
    fix p assume p: "p \<in> set paths" and d: "is_dir fs p = Inr True"
    from d have "is_file fs p = Inr False" by (rule is_dir_not_file)
    with p rel [OF p] have "str (parent \<lparr>base = [], steps = steps p\<rparr>) \<in> dirs"
      unfolding coll by blast
    with rel [OF p] m show "\<exists>q. relative_to p directory = Inr q \<and> str (parent q) \<in> set ?ds"
      by simp
  qed
  ultimately show ?thesis unfolding coll [symmetric] by blast
qed

theorem directory_block_example:
  "snd (summarize_project_structure example_library example_project ''proj'') =
     Inr ''Detected directories:\<newline>.\<newline>src\<newline>src/lib\<newline>\<newline>Dependencies info: Error analyzing package.json. Ruby dependencies (Gemfile): rails, pg. C# dependencies: Newtonsoft.Json, Serilog. Python dependencies (requirements.txt): flask, requests.'' \<and>
   (\<exists>ds deps.
      snd (summarize_project_structure example_library example_project ''proj'') =
        Inr (''Detected directories:'' @ [CHR 0x0A] @ join [CHR 0x0A] ds @
             [CHR 0x0A, CHR 0x0A] @ ''Dependencies info: '' @ join '' '' deps) \<and>
      sorted ds \<and> distinct ds \<and>
      set ds = {str (parent q) |p q.
                  p \<in> set (projr (rglob example_project ''proj'')) \<and>
                  is_file example_project p = Inr False \<and>
                  relative_to p ''proj'' = Inr q} \<and>
      (\<forall>p\<in>set (projr (rglob example_project ''proj'')). is_dir example_project p = Inr True \<longrightarrow>
         (\<exists>q. relative_to p ''proj'' = Inr q \<and> str (parent q) \<in> set ds)))"
proof (rule conjI)
  show "snd (summarize_project_structure example_library example_project ''proj'') =
     Inr ''Detected directories:\<newline>.\<newline>src\<newline>src/lib\<newline>\<newline>Dependencies info: Error analyzing package.json. Ruby dependencies (Gemfile): rails, pg. C# dependencies: Newtonsoft.Json, Serilog. Python dependencies (requirements.txt): flask, requests.''"
    by code_simp
  have h1: "rglob example_project ''proj'' = Inr (projr (rglob example_project ''proj''))"
    by code_simp
  have h2: "\<forall>p\<in>set (projr (rglob example_project ''proj'')). \<not> isl (is_file example_project p)"
    by code_simp
  have h3: "\<forall>p\<in>set (projr (rglob example_project ''proj'')).
              is_file example_project p = Inr True \<longrightarrow>
              \<not> isl (snd (analyze_project_dependencies example_library example_project p))"
    by code_simp
  show "\<exists>ds deps.
      snd (summarize_project_structure example_library example_project ''proj'') =
        Inr (''Detected directories:'' @ [CHR 0x0A] @ join [CHR 0x0A] ds @
             [CHR 0x0A, CHR 0x0A] @ ''Dependencies info: '' @ join '' '' deps) \<and>
      sorted ds \<and> distinct ds \<and>
      set ds = {str (parent q) |p q.
                  p \<in> set (projr (rglob example_project ''proj'')) \<and>
                  is_file example_project p = Inr False \<and>
                  relative_to p ''proj'' = Inr q} \<and>
      (\<forall>p\<in>set (projr (rglob example_project ''proj'')). is_dir example_project p = Inr True \<longrightarrow>
         (\<exists>q. relative_to p ''proj'' = Inr q \<and> str (parent q) \<in> set ds))"
    by (rule directory_block_sorted_distinct_parents [OF h1 h2 h3])
qed

section \<open>The root directory\<close>




section \<open>package.json that json.loads rejects\<close>

text \<open>
  Claim C3 says that every \<^verbatim>\<open>package.json\<close> whose content is not valid JSON gives the
  sentence \<^verbatim>\<open>Error analyzing package.json.\<close> Counterexample: the empty text is not
  JSON, \<^verbatim>\<open>json.loads\<close> rejects it, and an empty \<^verbatim>\<open>package.json\<close> gives the empty string,
  by the \<^verbatim>\<open>if content:\<close> of line 38.
\<close>

theorem empty_package_json_gives_no_error_string:
  "json_loads example_library [] = Inl JSONDecodeError \<and>
   analyze_project_dependencies example_library (single_file ''package.json'' (Inr []))
     (in_proj ''package.json'') = ([], Inr [])"
  by code_simp

text \<open>
  Claim C3 as amended. For a file named \<^verbatim>\<open>package.json\<close> whose content is read and
  makes \<^verbatim>\<open>json.loads\<close> raise \<^verbatim>\<open>JSONDecodeError\<close>, the result is exactly
  \<^verbatim>\<open>Error analyzing package.json.\<close> when the content is not empty, and the empty string
  when it is empty. The traversal goes on: when the traversal raises nothing,
  \<^verbatim>\<open>is_file\<close> answers for every path of the traversal and the analysis of no regular
  file raises, the summary is returned, its list of dependency fragments is the list of
  the non-empty results of all regular files in the order of the traversal, so it
  holds the error sentence of this file and the non-empty result of every other file.
\<close>

theorem malformed_package_json_is_reported_and_traversal_continues:
  assumes "name p = ''package.json''"
      and "read_text fs p = Inr content"
      and "json_loads lib content = Inl JSONDecodeError"
  shows "analyze_project_dependencies lib fs p =
           ([], Inr (if content = [] then [] else ''Error analyzing package.json.'')) \<and>
         (\<forall>paths.
            rglob fs directory = Inr paths \<and>
            (\<forall>q\<in>set paths. \<not> isl (is_file fs q)) \<and>
            (\<forall>q\<in>set paths. is_file fs q = Inr True \<longrightarrow>
               \<not> isl (snd (analyze_project_dependencies lib fs q))) \<longrightarrow>
            (\<exists>deps dirs.
               snd (summarize_project_structure lib fs directory) = Inr (project_summary deps dirs) \<and>
               deps = filter (\<lambda>r. r \<noteq> [])
                        (map (\<lambda>q. projr (snd (analyze_project_dependencies lib fs q)))
                             (filter (\<lambda>q. is_file fs q = Inr True) paths)) \<and>
               (p \<in> set paths \<and> is_file fs p = Inr True \<and> content \<noteq> [] \<longrightarrow>
                  ''Error analyzing package.json.'' \<in> set deps) \<and>
               (\<forall>q\<in>set paths. \<forall>r.
                  is_file fs q = Inr True \<and>
                  snd (analyze_project_dependencies lib fs q) = Inr r \<and> r \<noteq> [] \<longrightarrow>
                  r \<in> set deps)))"
proof (intro conjI impI allI)
  show a: "analyze_project_dependencies lib fs p =
           ([], Inr (if content = [] then [] else ''Error analyzing package.json.''))"
    using assms
    by (simp add: analyze_project_dependencies_def if_content_read analyze_package_json_def)
  fix paths
  assume h: "rglob fs directory = Inr paths \<and>
            (\<forall>q\<in>set paths. \<not> isl (is_file fs q)) \<and>
            (\<forall>q\<in>set paths. is_file fs q = Inr True \<longrightarrow>
               \<not> isl (snd (analyze_project_dependencies lib fs q)))"
  then have h': "rglob fs directory = Inr paths" "\<forall>q\<in>set paths. \<not> isl (is_file fs q)"
    "\<forall>q\<in>set paths. is_file fs q = Inr True \<longrightarrow>
         \<not> isl (snd (analyze_project_dependencies lib fs q))"
    by blast+
  let ?deps = "filter (\<lambda>r. r \<noteq> [])
                      (map (\<lambda>q. projr (snd (analyze_project_dependencies lib fs q)))
                           (filter (\<lambda>q. is_file fs q = Inr True) paths))"
  let ?dirs = "(\<lambda>p. str (parent \<lparr>base = [], steps = steps p\<rparr>)) `
                   {p \<in> set paths. is_file fs p = Inr False}"
  have s: "snd (summarize_project_structure lib fs directory) = Inr (project_summary ?deps ?dirs)"
    using summarize_ok [OF h'] .
  have mem: "\<And>q r. q \<in> set paths \<Longrightarrow> is_file fs q = Inr True \<Longrightarrow>
               snd (analyze_project_dependencies lib fs q) = Inr r \<Longrightarrow> r \<noteq> [] \<Longrightarrow> r \<in> set ?deps"
  proof -
    fix q r
    assume q: "q \<in> set paths" "is_file fs q = Inr True"
       and r: "snd (analyze_project_dependencies lib fs q) = Inr r" "r \<noteq> []"
    from q have "q \<in> set (filter (\<lambda>q. is_file fs q = Inr True) paths)" by simp
    then have "projr (snd (analyze_project_dependencies lib fs q)) \<in>
                 set (map (\<lambda>q. projr (snd (analyze_project_dependencies lib fs q)))
                          (filter (\<lambda>q. is_file fs q = Inr True) paths))"
      unfolding set_map by (rule imageI)
    with r show "r \<in> set ?deps" by simp
  qed
  have err: "p \<in> set paths \<and> is_file fs p = Inr True \<and> content \<noteq> [] \<longrightarrow>
                ''Error analyzing package.json.'' \<in> set ?deps"
  proof (intro impI)
    assume e: "p \<in> set paths \<and> is_file fs p = Inr True \<and> content \<noteq> []"
    with a have "snd (analyze_project_dependencies lib fs p) = Inr ''Error analyzing package.json.''"
      by simp
    from mem [OF _ _ this] e show "''Error analyzing package.json.'' \<in> set ?deps" by simp
  qed
  have all: "\<forall>q\<in>set paths. \<forall>r.
                is_file fs q = Inr True \<and>
                snd (analyze_project_dependencies lib fs q) = Inr r \<and> r \<noteq> [] \<longrightarrow>
                r \<in> set ?deps"
    using mem by blast
  from s err all
  show "\<exists>deps dirs.
               snd (summarize_project_structure lib fs directory) = Inr (project_summary deps dirs) \<and>
               deps = filter (\<lambda>r. r \<noteq> [])
                        (map (\<lambda>q. projr (snd (analyze_project_dependencies lib fs q)))
                             (filter (\<lambda>q. is_file fs q = Inr True) paths)) \<and>
               (p \<in> set paths \<and> is_file fs p = Inr True \<and> content \<noteq> [] \<longrightarrow>
                  ''Error analyzing package.json.'' \<in> set deps) \<and>
               (\<forall>q\<in>set paths. \<forall>r.
                  is_file fs q = Inr True \<and>
                  snd (analyze_project_dependencies lib fs q) = Inr r \<and> r \<noteq> [] \<longrightarrow>
                  r \<in> set deps)"
    by blast
qed

theorem malformed_package_json_example:
  "analyze_project_dependencies example_library example_project (in_proj ''package.json'') =
     ([], Inr ''Error analyzing package.json.'') \<and>
   (\<exists>deps dirs.
      snd (summarize_project_structure example_library example_project ''proj'') =
        Inr (project_summary deps dirs) \<and>
      ''Error analyzing package.json.'' \<in> set deps \<and>
      ''Ruby dependencies (Gemfile): rails, pg.'' \<in> set deps)"
proof -
  let ?paths = "projr (rglob example_project ''proj'')"
  have n: "name (in_proj ''package.json'') = ''package.json''" by code_simp
  have r: "read_text example_project (in_proj ''package.json'') = Inr ''not json''" by code_simp
  have j: "json_loads example_library ''not json'' = Inl JSONDecodeError" by code_simp
  have ok: "rglob example_project ''proj'' = Inr ?paths \<and>
            (\<forall>q\<in>set ?paths. \<not> isl (is_file example_project q)) \<and>
            (\<forall>q\<in>set ?paths. is_file example_project q = Inr True \<longrightarrow>
               \<not> isl (snd (analyze_project_dependencies example_library example_project q)))"
    by code_simp
  have p: "in_proj ''package.json'' \<in> set ?paths \<and>
           is_file example_project (in_proj ''package.json'') = Inr True \<and> ''not json'' \<noteq> []"
    by code_simp
  have g: "in_proj ''Gemfile'' \<in> set ?paths" by code_simp
  have g': "is_file example_project (in_proj ''Gemfile'') = Inr True \<and>
            snd (analyze_project_dependencies example_library example_project (in_proj ''Gemfile'')) =
              Inr ''Ruby dependencies (Gemfile): rails, pg.'' \<and>
            ''Ruby dependencies (Gemfile): rails, pg.'' \<noteq> []"
    by code_simp
  note t = malformed_package_json_is_reported_and_traversal_continues
             [OF n r j, of "''proj''"]
  from t have a: "analyze_project_dependencies example_library example_project (in_proj ''package.json'') =
     ([], Inr ''Error analyzing package.json.'')"
    by simp
  from t ok obtain deps dirs where
    s: "snd (summarize_project_structure example_library example_project ''proj'') =
        Inr (project_summary deps dirs)" and
    e: "in_proj ''package.json'' \<in> set ?paths \<and>
           is_file example_project (in_proj ''package.json'') = Inr True \<and> ''not json'' \<noteq> [] \<longrightarrow>
        ''Error analyzing package.json.'' \<in> set deps" and
    m: "\<forall>q\<in>set ?paths. \<forall>r.
          is_file example_project q = Inr True \<and>
          snd (analyze_project_dependencies example_library example_project q) = Inr r \<and> r \<noteq> [] \<longrightarrow>
          r \<in> set deps"
    by blast
  from e p have e': "''Error analyzing package.json.'' \<in> set deps" by (rule mp)
  from m g g' have g'': "''Ruby dependencies (Gemfile): rails, pg.'' \<in> set deps" by blast
  from a s e' g'' show ?thesis by blast
qed

section \<open>Files that cannot be read\<close>




section \<open>Gemfile\<close>

text \<open>
  Claim C4 says that the analysis of a \<^verbatim>\<open>Gemfile\<close> never raises and that a line without
  a second piece is skipped. The code raises: a \<^verbatim>\<open>Gemfile\<close> whose only line is
  \<^verbatim>\<open>gemspec\<close> (or \<^verbatim>\<open>gem\<close>) starts with \<^verbatim>\<open>gem\<close>, \<^verbatim>\<open>line.split()\<close> has one piece, and
  \<^verbatim>\<open>[1]\<close> raises \<^verbatim>\<open>IndexError\<close>, which leaves the analysis and the whole summary. The
  branches of \<^verbatim>\<open>package.json\<close> and \<^verbatim>\<open>.csproj\<close> catch the errors of their parsers and
  \<^verbatim>\<open>read_file_content\<close> catches every error; this branch catches nothing.
\<close>

theorem gemfile_line_without_second_piece_raises:
  "splitlines ''gemspec'' = [''gemspec''] \<and> str_split ''gemspec'' = [''gemspec''] \<and>
   analyze_project_dependencies example_library (single_file ''Gemfile'' (Inr ''gemspec''))
     (in_proj ''Gemfile'') = ([], Inl IndexError) \<and>
   analyze_project_dependencies example_library (single_file ''Gemfile'' (Inr ''gem''))
     (in_proj ''Gemfile'') = ([], Inl IndexError) \<and>
   summarize_project_structure example_library (single_file ''Gemfile'' (Inr ''gemspec'')) ''proj'' =
     ([], Inl IndexError)"
  by code_simp

text \<open>
  Claim C5 says that the lines whose first piece is \<^verbatim>\<open>gem\<close> are recorded, each with one
  pair of quotes removed from its second piece. Counterexample: the first piece of an
  indented line \<^verbatim>\<open>gem 'pg'\<close> is \<^verbatim>\<open>gem\<close>, but the line does not start with the
  characters \<^verbatim>\<open>gem\<close> and nothing is recorded for it.
\<close>

theorem indented_gem_line_is_not_recorded:
  \<open>str_split (''  gem '' @ [CHR 0x27] @ ''pg'' @ [CHR 0x27]) = [''gem'', [CHR 0x27] @ ''pg'' @ [CHR 0x27]] \<and>
   analyze_project_dependencies example_library
     (single_file ''Gemfile'' (Inr (''  gem '' @ [CHR 0x27] @ ''pg'' @ [CHR 0x27])))
     (in_proj ''Gemfile'') = ([], Inr ''Ruby dependencies (Gemfile): .'')\<close>
  by code_simp

text \<open>
  Claim C5 as amended. For a file named \<^verbatim>\<open>Gemfile\<close> whose content is read and not
  empty, and in which every line that starts with the characters \<^verbatim>\<open>gem\<close> has at least
  two pieces: the result names, in the order of the lines, for each line that starts
  with the characters \<^verbatim>\<open>gem\<close>, its second piece without any leading or trailing
  double quote and then without any leading or trailing single quote. The example of
  the specification gives \<^verbatim>\<open>rails, pg\<close>.
\<close>

theorem gemfile_lines_starting_with_gem:
  assumes "name p = ''Gemfile''"
      and "read_text fs p = Inr content"
      and "content \<noteq> []"
      and "\<forall>line\<in>set (splitlines content).
             startswith line ''gem'' \<longrightarrow> 2 \<le> length (str_split line)"
  shows "analyze_project_dependencies lib fs p =
           ([], Inr (''Ruby dependencies (Gemfile): '' @
                     join '', ''
                       (map (\<lambda>line. strip [CHR 0x27] (strip [CHR 0x22] (str_split line ! 1)))
                            (filter (\<lambda>line. startswith line ''gem'') (splitlines content))) @
                     ''.''))"
  using assms(1-3) gemfile_loop_ok [OF assms(4), of "[]"]
  by (simp add: analyze_project_dependencies_def if_content_read analyze_gemfile_def)

theorem gemfile_example:
  "analyze_project_dependencies example_library (single_file ''Gemfile'' (Inr example_gemfile))
     (in_proj ''Gemfile'') = ([], Inr ''Ruby dependencies (Gemfile): rails, pg.'')"
proof -
  let ?fs = "single_file ''Gemfile'' (Inr example_gemfile)"
  have n: "name (in_proj ''Gemfile'') = ''Gemfile''" by code_simp
  have r: "read_text ?fs (in_proj ''Gemfile'') = Inr example_gemfile" by code_simp
  have c: "example_gemfile \<noteq> []" by code_simp
  have l: "\<forall>line\<in>set (splitlines example_gemfile).
             startswith line ''gem'' \<longrightarrow> 2 \<le> length (str_split line)"
    by code_simp
  have v: "''Ruby dependencies (Gemfile): '' @
                     join '', ''
                       (map (\<lambda>line. strip [CHR 0x27] (strip [CHR 0x22] (str_split line ! 1)))
                            (filter (\<lambda>line. startswith line ''gem'') (splitlines example_gemfile))) @
                     ''.'' = ''Ruby dependencies (Gemfile): rails, pg.''"
    by code_simp
  from gemfile_lines_starting_with_gem [OF n r c l, of example_library] v
  show ?thesis by simp
qed

section \<open>package.json\<close>



section \<open>requirements.txt and Pipfile\<close>

text \<open>
  Claim C7 says that every file named \<^verbatim>\<open>requirements.txt\<close> or \<^verbatim>\<open>Pipfile\<close> gives its
  lines under the label of its name. Counterexample: an empty \<^verbatim>\<open>requirements.txt\<close>
  gives the empty string, with no label, by the \<^verbatim>\<open>if content:\<close> of line 56.
\<close>

theorem empty_requirements_has_no_label:
  "analyze_project_dependencies example_library (single_file ''requirements.txt'' (Inr []))
     (in_proj ''requirements.txt'') = ([], Inr []) \<and>
   analyze_project_dependencies example_library (single_file ''requirements.txt'' (Inr []))
     (in_proj ''requirements.txt'') \<noteq> ([], Inr ''Python dependencies (requirements.txt): .'')"
  by code_simp

text \<open>
  Claim C7 as amended. For a file named \<^verbatim>\<open>requirements.txt\<close> or \<^verbatim>\<open>Pipfile\<close> whose
  content is read and not empty, the result is the label of the name that matched,
  followed by the lines that are not empty and do not start with \<^verbatim>\<open>#\<close>, each as it
  stands, in the order of the lines, joined by a comma and a space.
\<close>

theorem python_manifest_lines:
  assumes "name p = ''requirements.txt'' \<or> name p = ''Pipfile''"
      and "read_text fs p = Inr content"
      and "content \<noteq> []"
  shows "analyze_project_dependencies lib fs p =
           ([], Inr ((if name p = ''Pipfile'' then ''Python dependencies (Pipfile)''
                      else ''Python dependencies (requirements.txt)'') @ '': '' @
                     join '', ''
                       (filter (\<lambda>line. line \<noteq> [] \<and> \<not> startswith line ''#'') (splitlines content)) @
                     ''.''))"
  using assms
  by (auto simp: analyze_project_dependencies_def if_content_read analyze_python_def)

theorem python_manifest_examples:
  "analyze_project_dependencies example_library
     (single_file ''requirements.txt'' (Inr example_requirements)) (in_proj ''requirements.txt'') =
     ([], Inr ''Python dependencies (requirements.txt): flask, requests.'') \<and>
   analyze_project_dependencies example_library
     (single_file ''Pipfile'' (Inr example_requirements)) (in_proj ''Pipfile'') =
     ([], Inr ''Python dependencies (Pipfile): flask, requests.'')"
proof -
  have n1: "name (in_proj ''requirements.txt'') = ''requirements.txt'' \<or>
            name (in_proj ''requirements.txt'') = ''Pipfile''" by code_simp
  have n2: "name (in_proj ''Pipfile'') = ''requirements.txt'' \<or>
            name (in_proj ''Pipfile'') = ''Pipfile''" by code_simp
  have r1: "read_text (single_file ''requirements.txt'' (Inr example_requirements))
              (in_proj ''requirements.txt'') = Inr example_requirements" by code_simp
  have r2: "read_text (single_file ''Pipfile'' (Inr example_requirements))
              (in_proj ''Pipfile'') = Inr example_requirements" by code_simp
  have c: "example_requirements \<noteq> []" by code_simp
  have v1: "(if name (in_proj ''requirements.txt'') = ''Pipfile'' then ''Python dependencies (Pipfile)''
                      else ''Python dependencies (requirements.txt)'') @ '': '' @
                     join '', ''
                       (filter (\<lambda>line. line \<noteq> [] \<and> \<not> startswith line ''#'')
                          (splitlines example_requirements)) @
                     ''.'' = ''Python dependencies (requirements.txt): flask, requests.''"
    by code_simp
  have v2: "(if name (in_proj ''Pipfile'') = ''Pipfile'' then ''Python dependencies (Pipfile)''
                      else ''Python dependencies (requirements.txt)'') @ '': '' @
                     join '', ''
                       (filter (\<lambda>line. line \<noteq> [] \<and> \<not> startswith line ''#'')
                          (splitlines example_requirements)) @
                     ''.'' = ''Python dependencies (Pipfile): flask, requests.''"
    by code_simp
  from python_manifest_lines [OF n1 r1 c, of example_library] v1
  have c1: "analyze_project_dependencies example_library
     (single_file ''requirements.txt'' (Inr example_requirements)) (in_proj ''requirements.txt'') =
     ([], Inr ''Python dependencies (requirements.txt): flask, requests.'')"
    by simp
  from python_manifest_lines [OF n2 r2 c, of example_library] v2
  have c2: "analyze_project_dependencies example_library
     (single_file ''Pipfile'' (Inr example_requirements)) (in_proj ''Pipfile'') =
     ([], Inr ''Python dependencies (Pipfile): flask, requests.'')"
    by simp
  from c1 c2 show ?thesis by (rule conjI)
qed

section \<open>Project files of C#\<close>

text \<open>
  Claim C8 says that every file whose name ends in \<^verbatim>\<open>.csproj\<close> is parsed and that a
  failure of the parser gives \<^verbatim>\<open>Error analyzing .csproj.\<close> Counterexample: the parser
  rejects the empty text, and an empty \<^verbatim>\<open>app.csproj\<close> gives the empty string, by the
  \<^verbatim>\<open>if content:\<close> of line 64.
\<close>

theorem empty_csproj_gives_no_error_string:
  "fromstring example_library [] = Inl ParseError \<and>
   analyze_project_dependencies example_library (single_file ''app.csproj'' (Inr []))
     (in_proj ''app.csproj'') = ([], Inr [])"
  by code_simp

text \<open>
  Claim C8 as amended. For a file whose name is a stem that is not empty followed by
  \<^verbatim>\<open>.csproj\<close>, and whose content is read and not empty: when \<^verbatim>\<open>ET.fromstring\<close> raises
  \<^verbatim>\<open>ParseError\<close> the result is exactly \<^verbatim>\<open>Error analyzing .csproj.\<close>; when it returns a
  tree in which every element below the root whose tag is exactly \<^verbatim>\<open>PackageReference\<close>
  has an \<^verbatim>\<open>Include\<close> attribute, the result names the \<^verbatim>\<open>Include\<close> values of the
  elements whose tag is exactly \<^verbatim>\<open>PackageReference\<close>, at any depth below the root, in
  document order. These are the elements named \<^verbatim>\<open>PackageReference\<close> in no namespace: in
  a project that declares a default \<^verbatim>\<open>xmlns\<close> the tags carry the namespace, none is
  found and the result names no package.
\<close>

theorem csproj_package_references:
  assumes "name p = stem @ ''.csproj''" and "stem \<noteq> []"
      and "read_text fs p = Inr content"
      and "content \<noteq> []"
  shows "(fromstring lib content = Inl ParseError \<longrightarrow>
            analyze_project_dependencies lib fs p = ([], Inr ''Error analyzing .csproj.'')) \<and>
         (\<forall>tree. fromstring lib content = Inr tree \<and>
                 (\<forall>e\<in>set (findall_descendants tree ''PackageReference'').
                    map_of (attrib e) ''Include'' \<noteq> None) \<longrightarrow>
            analyze_project_dependencies lib fs p =
              ([], Inr (''C# dependencies: '' @
                        join '', ''
                          (map (\<lambda>e. the (map_of (attrib e) ''Include''))
                               (filter (\<lambda>e. tag e = ''PackageReference'')
                                  (concat (map iter (children tree))))) @
                        ''.'')))"
proof -
  have a: "analyze_project_dependencies lib fs p = ([], analyze_csproj lib content)"
    using analyze_csproj_branch [OF assms(1,2)] assms(3,4) by (simp add: if_content_read)
  show ?thesis
  proof (intro conjI impI allI)
    assume "fromstring lib content = Inl ParseError"
    then show "analyze_project_dependencies lib fs p = ([], Inr ''Error analyzing .csproj.'')"
      unfolding a by (simp add: analyze_csproj_def)
  next
    fix tree
    assume h: "fromstring lib content = Inr tree \<and>
                 (\<forall>e\<in>set (findall_descendants tree ''PackageReference'').
                    map_of (attrib e) ''Include'' \<noteq> None)"
    then have "include_values (findall_descendants tree ''PackageReference'') =
                 Inr (map (\<lambda>e. the (map_of (attrib e) ''Include''))
                          (findall_descendants tree ''PackageReference''))"
      using include_values_ok by blast
    with h show "analyze_project_dependencies lib fs p =
              ([], Inr (''C# dependencies: '' @
                        join '', ''
                          (map (\<lambda>e. the (map_of (attrib e) ''Include''))
                               (filter (\<lambda>e. tag e = ''PackageReference'')
                                  (concat (map iter (children tree))))) @
                        ''.''))"
      unfolding a by (simp add: analyze_csproj_def findall_descendants_def)
  qed
qed

theorem csproj_examples:
  "analyze_project_dependencies example_library (single_file ''app.csproj'' (Inr ''<Project>''))
     (in_proj ''app.csproj'') = ([], Inr ''Error analyzing .csproj.'') \<and>
   analyze_project_dependencies example_library (single_file ''app.csproj'' (Inr example_csproj))
     (in_proj ''app.csproj'') = ([], Inr ''C# dependencies: Newtonsoft.Json, Serilog.'') \<and>
   analyze_project_dependencies example_library
     (single_file ''app.csproj'' (Inr example_csproj_xmlns)) (in_proj ''app.csproj'') =
     ([], Inr ''C# dependencies: .'')"
proof -
  have n: "name (in_proj ''app.csproj'') = ''app'' @ ''.csproj''" by code_simp
  have s: "''app'' \<noteq> []" by simp
  have r1: "read_text (single_file ''app.csproj'' (Inr ''<Project>'')) (in_proj ''app.csproj'') =
              Inr ''<Project>''" by code_simp
  have c1: "''<Project>'' \<noteq> []" by simp
  have p1: "fromstring example_library ''<Project>'' = Inl ParseError" by code_simp
  have r2: "read_text (single_file ''app.csproj'' (Inr example_csproj)) (in_proj ''app.csproj'') =
              Inr example_csproj" by code_simp
  have c2: "example_csproj \<noteq> []" by code_simp
  let ?tree = "Element ''Project'' []
               [Element ''ItemGroup'' [] [Element ''PackageReference'' [(''Include'', ''Newtonsoft.Json'')] []],
                Element ''PackageReference'' [(''Include'', ''Serilog'')] []]"
  have p2: "fromstring example_library example_csproj = Inr ?tree \<and>
            (\<forall>e\<in>set (findall_descendants ?tree ''PackageReference'').
               map_of (attrib e) ''Include'' \<noteq> None)"
    by code_simp
  have v: "''C# dependencies: '' @
             join '', ''
               (map (\<lambda>e. the (map_of (attrib e) ''Include''))
                    (filter (\<lambda>e. tag e = ''PackageReference'') (concat (map iter (children ?tree))))) @
             ''.'' = ''C# dependencies: Newtonsoft.Json, Serilog.''"
    by code_simp
  from csproj_package_references [OF n s r1 c1, of example_library] p1
  have a1: "analyze_project_dependencies example_library (single_file ''app.csproj'' (Inr ''<Project>''))
     (in_proj ''app.csproj'') = ([], Inr ''Error analyzing .csproj.'')"
    by blast
  from csproj_package_references [OF n s r2 c2, of example_library] p2
  have "analyze_project_dependencies example_library (single_file ''app.csproj'' (Inr example_csproj))
     (in_proj ''app.csproj'') =
       ([], Inr (''C# dependencies: '' @
             join '', ''
               (map (\<lambda>e. the (map_of (attrib e) ''Include''))
                    (filter (\<lambda>e. tag e = ''PackageReference'') (concat (map iter (children ?tree))))) @
             ''.''))"
    by blast
  with v have a2: "analyze_project_dependencies example_library (single_file ''app.csproj'' (Inr example_csproj))
     (in_proj ''app.csproj'') = ([], Inr ''C# dependencies: Newtonsoft.Json, Serilog.'')"
    by simp
  have r3: "read_text (single_file ''app.csproj'' (Inr example_csproj_xmlns)) (in_proj ''app.csproj'') =
              Inr example_csproj_xmlns" by code_simp
  have c3: "example_csproj_xmlns \<noteq> []" by code_simp
  let ?ns = "Element ''{urn:msbuild}Project'' []
               [Element ''{urn:msbuild}ItemGroup'' []
                  [Element ''{urn:msbuild}PackageReference'' [(''Include'', ''Serilog'')] [],
                   Element ''{urn:msbuild}PackageReference'' [] []]]"
  have p3: "fromstring example_library example_csproj_xmlns = Inr ?ns \<and>
            (\<forall>e\<in>set (findall_descendants ?ns ''PackageReference'').
               map_of (attrib e) ''Include'' \<noteq> None)"
    by code_simp
  have v3: "''C# dependencies: '' @
             join '', ''
               (map (\<lambda>e. the (map_of (attrib e) ''Include''))
                    (filter (\<lambda>e. tag e = ''PackageReference'') (concat (map iter (children ?ns))))) @
             ''.'' = ''C# dependencies: .''"
    by code_simp
  from csproj_package_references [OF n s r3 c3, of example_library] p3
  have "analyze_project_dependencies example_library
     (single_file ''app.csproj'' (Inr example_csproj_xmlns)) (in_proj ''app.csproj'') =
       ([], Inr (''C# dependencies: '' @
             join '', ''
               (map (\<lambda>e. the (map_of (attrib e) ''Include''))
                    (filter (\<lambda>e. tag e = ''PackageReference'') (concat (map iter (children ?ns))))) @
             ''.''))"
    by blast
  with v3 have a3: "analyze_project_dependencies example_library
     (single_file ''app.csproj'' (Inr example_csproj_xmlns)) (in_proj ''app.csproj'') =
     ([], Inr ''C# dependencies: .'')"
    by simp
  from a1 a2 a3 show ?thesis by blast
qed

text \<open>
  Claim C10 says that every well-formed \<^verbatim>\<open>.csproj\<close> holding a \<^verbatim>\<open>PackageReference\<close>
  element without \<^verbatim>\<open>Include\<close> makes the analysis raise. Counterexample: when that
  element is the root of the document the search does not find it, and the result is
  the sentence of a project without packages.
\<close>

theorem root_package_reference_is_not_searched:
  "fromstring example_library ''<PackageReference/>'' = Inr (Element ''PackageReference'' [] []) \<and>
   analyze_project_dependencies example_library
     (single_file ''app.csproj'' (Inr ''<PackageReference/>'')) (in_proj ''app.csproj'') =
     ([], Inr ''C# dependencies: .'')"
  by code_simp

text \<open>
  Claim C10 as amended. For a file whose name is a stem that is not empty followed by
  \<^verbatim>\<open>.csproj\<close>, whose content \<^verbatim>\<open>ET.fromstring\<close> reads as a tree (it raises on the empty
  text), and that holds below its root an element whose tag is exactly
  \<^verbatim>\<open>PackageReference\<close> (an element of that name in no namespace) without an \<^verbatim>\<open>Include\<close>
  attribute, the analysis raises \<^verbatim>\<open>KeyError\<close>: it returns neither the error sentence
  nor the empty string.
\<close>

theorem missing_include_raises_key_error:
  assumes "name p = stem @ ''.csproj''" and "stem \<noteq> []"
      and "read_text fs p = Inr content"
      and "isl (fromstring lib [])"
      and "fromstring lib content = Inr tree"
      and "c \<in> set (children tree)" and "e \<in> set (iter c)"
      and "tag e = ''PackageReference''"
      and "map_of (attrib e) ''Include'' = None"
  shows "analyze_project_dependencies lib fs p = ([], Inl KeyError)"
proof -
  from assms(4,5) have ne: "content \<noteq> []" by auto
  have a: "analyze_project_dependencies lib fs p = ([], analyze_csproj lib content)"
    using analyze_csproj_branch [OF assms(1,2)] assms(3) ne by (simp add: if_content_read)
  from assms(6-8) have "e \<in> set (findall_descendants tree ''PackageReference'')"
    by (auto simp: findall_descendants_def)
  from include_values_KeyError [OF this assms(9)] assms(5) show ?thesis
    unfolding a by (simp add: analyze_csproj_def)
qed

theorem missing_include_example:
  "analyze_project_dependencies example_library
     (single_file ''app.csproj'' (Inr ''<Project><ItemGroup><PackageReference/></ItemGroup></Project>''))
     (in_proj ''app.csproj'') = ([], Inl KeyError)"
proof -
  let ?x = "''<Project><ItemGroup><PackageReference/></ItemGroup></Project>''"
  let ?e = "Element ''PackageReference'' [] []"
  let ?c = "Element ''ItemGroup'' [] [?e]"
  let ?tree = "Element ''Project'' [] [?c]"
  have n: "name (in_proj ''app.csproj'') = ''app'' @ ''.csproj''" by code_simp
  have s: "''app'' \<noteq> []" by simp
  have r: "read_text (single_file ''app.csproj'' (Inr ?x)) (in_proj ''app.csproj'') = Inr ?x"
    by code_simp
  have z: "isl (fromstring example_library [])" by code_simp
  have f: "fromstring example_library ?x = Inr ?tree" by code_simp
  have c: "?c \<in> set (children ?tree)" by simp
  have e: "?e \<in> set (iter ?c)" by simp
  have t: "tag ?e = ''PackageReference''" by simp
  have m: "map_of (attrib ?e) ''Include'' = None" by simp
  from missing_include_raises_key_error [OF n s r z f c e t m] show ?thesis .
qed

section \<open>Further properties of the analysis\<close>

text \<open>
  The exception of claim C4 in general: a \<^verbatim>\<open>Gemfile\<close> with a line that starts with the
  characters \<^verbatim>\<open>gem\<close> and has fewer than two pieces makes the analysis raise
  \<^verbatim>\<open>IndexError\<close>, whatever the other lines are.
\<close>

theorem gemfile_short_gem_line_raises:
  assumes "name p = ''Gemfile''"
      and "read_text fs p = Inr content"
      and "line \<in> set (splitlines content)"
      and "startswith line ''gem''"
      and "length (str_split line) < 2"
  shows "analyze_project_dependencies lib fs p = ([], Inl IndexError)"
proof -
  from assms(3) have "content \<noteq> []" by (auto simp: splitlines_def)
  with assms(1,2) gemfile_loop_IndexError [OF assms(3-5), of "[]"] show ?thesis
    by (simp add: analyze_project_dependencies_def if_content_read analyze_gemfile_def)
qed

theorem gemfile_short_gem_line_example:
  \<open>analyze_project_dependencies example_library
     (single_file ''Gemfile'' (Inr (join [CHR 0x0A] [''source "https://rubygems.org"'', ''gemspec''])))
     (in_proj ''Gemfile'') = ([], Inl IndexError)\<close>
proof -
  let ?c = \<open>join [CHR 0x0A] [''source "https://rubygems.org"'', ''gemspec'']\<close>
  have n: "name (in_proj ''Gemfile'') = ''Gemfile''" by code_simp
  have r: "read_text (single_file ''Gemfile'' (Inr ?c)) (in_proj ''Gemfile'') = Inr ?c" by code_simp
  have l: "''gemspec'' \<in> set (splitlines ?c)" by code_simp
  have s: "startswith ''gemspec'' ''gem''" by code_simp
  have k: "length (str_split ''gemspec'') < 2" by code_simp
  from gemfile_short_gem_line_raises [OF n r l s k] show ?thesis .
qed

text \<open>
  A \<^verbatim>\<open>package.json\<close> whose JSON value is not an object, or whose \<^verbatim>\<open>dependencies\<close> is
  not an object, makes the analysis raise \<^verbatim>\<open>AttributeError\<close>: lines 39 to 44 catch
  \<^verbatim>\<open>JSONDecodeError\<close> only.
\<close>

theorem package_json_not_an_object_raises:
  assumes "name p = ''package.json''"
      and "read_text fs p = Inr content"
      and "isl (json_loads lib [])"
      and "json_loads lib content = Inr data"
  shows "((\<forall>items. data \<noteq> JObject items) \<longrightarrow>
            analyze_project_dependencies lib fs p = ([], Inl AttributeError)) \<and>
         (\<forall>items v. data = JObject items \<and> map_of items ''dependencies'' = Some v \<and>
                    (\<forall>deps. v \<noteq> JObject deps) \<longrightarrow>
            analyze_project_dependencies lib fs p = ([], Inl AttributeError))"
proof -
  from assms(3,4) have ne: "content \<noteq> []" by auto
  have a: "analyze_project_dependencies lib fs p = ([], analyze_package_json lib content)"
    using assms(1,2) ne by (simp add: analyze_project_dependencies_def if_content_read)
  show ?thesis
  proof (intro conjI impI allI)
    assume "\<forall>items. data \<noteq> JObject items"
    then show "analyze_project_dependencies lib fs p = ([], Inl AttributeError)"
      unfolding a using assms(4)
      by (cases data) (simp_all add: analyze_package_json_def json_get_def)
  next
    fix items v
    assume h: "data = JObject items \<and> map_of items ''dependencies'' = Some v \<and>
                    (\<forall>deps. v \<noteq> JObject deps)"
    then have "json_keys v = Inl AttributeError" by (cases v) (simp_all add: json_keys_def)
    with h show "analyze_project_dependencies lib fs p = ([], Inl AttributeError)"
      unfolding a using assms(4) by (simp add: analyze_package_json_def json_get_def)
  qed
qed

theorem package_json_not_an_object_examples:
  \<open>analyze_project_dependencies example_library (single_file ''package.json'' (Inr ''[]''))
     (in_proj ''package.json'') = ([], Inl AttributeError) \<and>
   analyze_project_dependencies example_library
     (single_file ''package.json'' (Inr ''{"dependencies": null}''))
     (in_proj ''package.json'') = ([], Inl AttributeError)\<close>
proof -
  let ?c2 = \<open>''{"dependencies": null}''\<close>
  have n: "name (in_proj ''package.json'') = ''package.json''" by code_simp
  have e: "isl (json_loads example_library [])" by code_simp
  have r1: "read_text (single_file ''package.json'' (Inr ''[]'')) (in_proj ''package.json'') = Inr ''[]''"
    by code_simp
  have j1: "json_loads example_library ''[]'' = Inr (JArray [])" by code_simp
  have d1: "\<forall>items. JArray [] \<noteq> JObject items" by simp
  have r2: "read_text (single_file ''package.json'' (Inr ?c2)) (in_proj ''package.json'') = Inr ?c2"
    by code_simp
  have j2: "json_loads example_library ?c2 = Inr (JObject [(''dependencies'', JNull)])"
    by code_simp
  have d2: "JObject [(''dependencies'', JNull)] = JObject [(''dependencies'', JNull)] \<and>
            map_of [(''dependencies'', JNull)] ''dependencies'' = Some JNull \<and>
            (\<forall>deps. JNull \<noteq> JObject deps)"
    by simp
  from package_json_not_an_object_raises [OF n r1 e j1] d1
  have c1: "analyze_project_dependencies example_library (single_file ''package.json'' (Inr ''[]''))
     (in_proj ''package.json'') = ([], Inl AttributeError)"
    by blast
  from package_json_not_an_object_raises [OF n r2 e j2] d2
  have c2: "analyze_project_dependencies example_library
     (single_file ''package.json'' (Inr ?c2)) (in_proj ''package.json'') = ([], Inl AttributeError)"
    by blast
  from c1 c2 show ?thesis by (rule conjI)
qed

text \<open>
  A file with none of the four names and without the suffix \<^verbatim>\<open>.csproj\<close> is not read
  and contributes the empty string (line 71). A file named exactly \<^verbatim>\<open>.csproj\<close> is such
  a file: its suffix is empty.
\<close>

theorem other_files_contribute_nothing:
  assumes "name p \<noteq> ''package.json''" and "name p \<noteq> ''Gemfile''"
      and "name p \<noteq> ''requirements.txt''" and "name p \<noteq> ''Pipfile''"
      and "suffix p \<noteq> ''.csproj''"
  shows "analyze_project_dependencies lib fs p = ([], Inr [])"
  using assms by (simp add: analyze_project_dependencies_def)

theorem other_files_example:
  "analyze_project_dependencies example_library example_project (in_proj ''README.md'') = ([], Inr []) \<and>
   analyze_project_dependencies example_library (single_file ''.csproj'' (Inr example_csproj))
     (in_proj ''.csproj'') = ([], Inr [])"
proof -
  have a: "name (in_proj ''README.md'') \<noteq> ''package.json''" "name (in_proj ''README.md'') \<noteq> ''Gemfile''"
    "name (in_proj ''README.md'') \<noteq> ''requirements.txt''" "name (in_proj ''README.md'') \<noteq> ''Pipfile''"
    "suffix (in_proj ''README.md'') \<noteq> ''.csproj''"
    by code_simp+
  have b: "name (in_proj ''.csproj'') \<noteq> ''package.json''" "name (in_proj ''.csproj'') \<noteq> ''Gemfile''"
    "name (in_proj ''.csproj'') \<noteq> ''requirements.txt''" "name (in_proj ''.csproj'') \<noteq> ''Pipfile''"
    "suffix (in_proj ''.csproj'') \<noteq> ''.csproj''"
    by code_simp+
  from other_files_contribute_nothing [OF a] other_files_contribute_nothing [OF b]
  show ?thesis by blast
qed

text \<open>
  An exception of \<^verbatim>\<open>json.loads\<close> other than \<^verbatim>\<open>JSONDecodeError\<close> leaves the analysis:
  deeply nested brackets raise \<^verbatim>\<open>RecursionError\<close>, which line 43 does not catch.
\<close>

theorem package_json_other_exception_raises:
  assumes "name p = ''package.json''"
      and "read_text fs p = Inr content"
      and "content \<noteq> []"
      and "json_loads lib content = Inl e"
      and "e \<noteq> JSONDecodeError"
  shows "analyze_project_dependencies lib fs p = ([], Inl e)"
  using assms
  by (simp add: analyze_project_dependencies_def if_content_read analyze_package_json_def)

theorem package_json_other_exception_example:
  "analyze_project_dependencies example_library
     (single_file ''package.json'' (Inr (replicate 1100 (CHR ''[''))))
     (in_proj ''package.json'') = ([], Inl RecursionError)"
proof -
  let ?c = "replicate 1100 (CHR ''['')"
  have n: "name (in_proj ''package.json'') = ''package.json''" by code_simp
  have r: "read_text (single_file ''package.json'' (Inr ?c)) (in_proj ''package.json'') = Inr ?c"
    by code_simp
  have c: "?c \<noteq> []" by code_simp
  have j: "json_loads example_library ?c = Inl RecursionError" by code_simp
  have e: "RecursionError \<noteq> JSONDecodeError" by simp
  from package_json_other_exception_raises [OF n r c j e] show ?thesis .
qed

text \<open>
  Permissions. An exception of \<^verbatim>\<open>is_dir\<close> of the root leaves the summary when line 81
  asks for the first path, and an exception of \<^verbatim>\<open>is_file\<close> leaves it at line 82; in
  both cases nothing is analysed after it. A root below a directory that cannot be
  searched, a root that can be listed but not searched, and a directory of that kind
  below the root all raise \<^verbatim>\<open>PermissionError\<close>.
\<close>

theorem summarize_raises_what_the_root_raises:
  assumes "tree_at fs directory = Inl e"
  shows "summarize_project_structure lib fs directory = ([], Inl e)"
  using rglob_raises [OF assms] by (simp add: summarize_project_structure_def)

theorem permission_examples_raise:
  "summarize_project_structure example_library permission_examples ''closed/below'' =
     ([], Inl PermissionError) \<and>
   summarize_project_structure example_library permission_examples ''listed'' =
     ([], Inl PermissionError) \<and>
   rglob permission_examples ''outer'' =
     Inr [\<lparr>base = ''outer'', steps = [''app.py'']\<rparr>, \<lparr>base = ''outer'', steps = [''sub'']\<rparr>,
          \<lparr>base = ''outer'', steps = [''sub'', ''g.txt'']\<rparr>] \<and>
   is_file permission_examples \<lparr>base = ''outer'', steps = [''sub'', ''g.txt'']\<rparr> =
     Inl PermissionError \<and>
   summarize_project_structure example_library permission_examples ''outer'' =
     ([], Inl PermissionError)"
  by code_simp

end
